theory Spec2Isabelle
  imports Main
begin

section \<open>Data model\<close>

text \<open>
  The exceptions a request can meet. \<open>KeyError\<close>, \<open>AttributeError\<close> and
  \<open>TypeError\<close> are raised by the script's own expressions (a missing session key, a
  field of \<open>None\<close>, iterating \<open>None\<close>); the others are raised by the collaborators
  (the OAuth helper, the statement execution client, the data frame constructor) and carry
  the collaborator's message.
\<close>

datatype exn =
    KeyError string
  | AttributeError string
  | TypeError string
  | ValueError string
  | EntropySourceError string
  | StateMismatchError
  | AuthorizationDeniedError string
  | TokenExchangeError string
  | QueryExecutionError string

text \<open>
  \<open>repr\<close> of a string, which is how a \<open>KeyError\<close> prints its key. The string is put
  between single quotes, or between double quotes when it holds a single quote and no
  double quote; a backslash and the chosen quote are escaped with a backslash, tab, newline
  and carriage return are written \<open>\t\<close>, \<open>\n\<close>, \<open>\r\<close>, any other control character as
  \<open>\xhh\<close>. Characters here are bytes: a byte from 128 on belongs to the encoding of a
  character outside ASCII and is kept as it is.
\<close>

definition hex_lower :: "nat \<Rightarrow> char" where
  "hex_lower d = char_of (if d < 10 then 48 + d else 87 + d)"

definition repr_quote :: "string \<Rightarrow> char" where
  "repr_quote s =
     (if CHR 0x22 \<in> set s then CHR 0x27
      else if CHR 0x27 \<in> set s then CHR 0x22
      else CHR 0x27)"

definition repr_char :: "char \<Rightarrow> char \<Rightarrow> string" where
  "repr_char q c =
     (let n = of_char c :: nat
      in if c = q \<or> c = CHR 0x5C then [CHR 0x5C, c]
         else if n = 9 then [CHR 0x5C, CHR ''t'']
         else if n = 10 then [CHR 0x5C, CHR ''n'']
         else if n = 13 then [CHR 0x5C, CHR ''r'']
         else if n < 32 \<or> n = 127 then [CHR 0x5C, CHR ''x'', hex_lower (n div 16), hex_lower (n mod 16)]
         else [c])"

definition repr :: "string \<Rightarrow> string" where
  "repr s = (let q = repr_quote s in [q] @ concat (map (repr_char q) s) @ [q])"

text \<open>\<open>'{}'.format(e)\<close>: the text of an exception. A \<open>KeyError\<close> prints the \<open>repr\<close> of its
  key; the others print their message.\<close>

fun format_exn :: "exn \<Rightarrow> string" where
  "format_exn (KeyError k) = repr k"
| "format_exn (AttributeError m) = m"
| "format_exn (TypeError m) = m"
| "format_exn (ValueError m) = m"
| "format_exn (EntropySourceError m) = m"
| "format_exn StateMismatchError = ''state mismatch''"
| "format_exn (AuthorizationDeniedError m) = m"
| "format_exn (TokenExchangeError m) = m"
| "format_exn (QueryExecutionError m) = m"

text \<open>A consent request as the OAuth helper hands it out, and the credentials of a session.\<close>

record consent =
  state :: string
  verifier :: string
  auth_url :: string

record credentials =
  access_token :: string
  refresh_token :: "string option"
  expiry :: nat

text \<open>
  The session is a dictionary. The script stores two kinds of value in it: the dictionary
  form of a consent under \<open>"consent"\<close> and that of the credentials under \<open>"creds"\<close>.
\<close>

datatype session_value = ConsentDict consent | CredsDict credentials

type_synonym session = "string \<rightharpoonup> session_value"

text \<open>\<open>Consent.as_dict\<close> / \<open>Consent.from_dict\<close> and the same pair for the credentials.\<close>

definition consent_as_dict :: "consent \<Rightarrow> session_value" where
  "consent_as_dict c = ConsentDict c"

definition creds_as_dict :: "credentials \<Rightarrow> session_value" where
  "creds_as_dict c = CredsDict c"

fun consent_from_dict :: "session_value \<Rightarrow> exn + consent" where
  "consent_from_dict (ConsentDict c) = Inr c"
| "consent_from_dict (CredsDict _) = Inl (KeyError ''state'')"

fun creds_from_dict :: "session_value \<Rightarrow> exn + credentials" where
  "creds_from_dict (CredsDict c) = Inr c"
| "creds_from_dict (ConsentDict _) = Inl (KeyError ''token'')"

text \<open>
  The response of the statement execution call, with the optional fields the script
  reads: \<open>text_results.manifest.schema.columns\<close>, each column's \<open>name\<close>, and
  \<open>text_results.result.data_array\<close>.
\<close>

datatype column_info = ColumnInfo (name: "string option")
datatype result_schema = ResultSchema (columns: "column_info list option")
datatype result_manifest = ResultManifest (schema: "result_schema option")
datatype result_data = ResultData (data_array: "string option list list option")

record statement_response =
  manifest :: "result_manifest option"
  result :: "result_data option"

record data_frame =
  df_columns :: "string option list"
  df_data :: "string option list list"

subsection \<open>Requests and responses\<close>

datatype http_method = GET | HEAD | POST | PUT | PATCH | DELETE | OPTIONS

text \<open>The view function the framework's routing has chosen for the request's path.\<close>

datatype endpoint = Index_view | Callback_view

record request =
  endpoint :: endpoint
  request_method :: http_method
  args :: "string \<rightharpoonup> string"
  form :: "string \<rightharpoonup> string"

text \<open>The form object handed to the template: its one field, \<open>sql\<close>.\<close>

record query_form =
  sql :: "string option"

text \<open>
  \<open>Redirect\<close> is \<open>redirect(url)\<close>. \<open>Page form table flashes\<close> is
  \<open>render_template('index.html', form=..., table=...)\<close> together with the messages
  flashed while handling the request, each with its category; \<open>table\<close> is \<open>None\<close> when
  the template gets no table. The last three are the framework's own answers: an exception
  that left the view function, a method the route does not accept, and the automatic
  answer to \<open>OPTIONS\<close>.
\<close>

datatype response =
    Redirect string
  | Page query_form "string option" "(string \<times> string) list"
  | InternalServerError exn
  | MethodNotAllowed
  | OptionsResponse

text \<open>The calls that leave the process, recorded in the order the handler makes them.\<close>

datatype call =
    InitiateConsent
  | ExchangeCallbackParameters consent "string \<rightharpoonup> string"
  | ExecuteStatement credentials string "string option"

subsection \<open>The collaborators\<close>

text \<open>
  What the script calls and does not define: the OAuth helper
  (\<open>oauth_client.initiate_consent()\<close>, \<open>consent.exchange_callback_parameters(args)\<close>),
  the statement execution client, the form's validators, \<open>pd.DataFrame\<close> and
  \<open>DataFrame.to_html\<close>, and the module-level \<open>warehouse_id\<close>. They are parameters of the
  handlers. A call that can raise returns a sum, \<open>Inl\<close> the exception.
\<close>

record env =
  initiate_consent :: "exn + consent"
  exchange_callback_parameters :: "consent \<Rightarrow> (string \<rightharpoonup> string) \<Rightarrow> exn + credentials"
  execute_statement :: "credentials \<Rightarrow> string \<Rightarrow> string option \<Rightarrow> exn + statement_response"
  validate :: "query_form \<Rightarrow> bool"
  DataFrame :: "string option list list option \<Rightarrow> string option list \<Rightarrow> exn + data_frame"
  to_html :: "data_frame \<Rightarrow> string"
  warehouse_id :: string

section \<open>The handlers\<close>

text \<open>\<open>url_for("index")\<close>: the index view is routed at \<open>/\<close>.\<close>

definition url_for_index :: string where
  "url_for_index = ''/''"

text \<open>
  A view function takes the session and the request and returns what it returned or
  raised, the session as it left it, and the calls it made.
\<close>

type_synonym view_result = "(exn + response) \<times> session \<times> call list"

text \<open>
  \<^verbatim>\<open>
  consent = Consent.from_dict(oauth_client, session["consent"])
  session["creds"] = consent.exchange_callback_parameters(request.args).as_dict()
  return redirect(url_for("index"))
  \<close>
\<close>

definition callback :: "env \<Rightarrow> session \<Rightarrow> request \<Rightarrow> view_result" where
  "callback e session rq =
     (case session ''consent'' of
        None \<Rightarrow> (Inl (KeyError ''consent''), session, [])
      | Some raw \<Rightarrow>
          (case consent_from_dict raw of
             Inl x \<Rightarrow> (Inl x, session, [])
           | Inr consent \<Rightarrow>
               (case exchange_callback_parameters e consent (args rq) of
                  Inl x \<Rightarrow> (Inl x, session, [ExchangeCallbackParameters consent (args rq)])
                | Inr creds \<Rightarrow>
                    (Inr (Redirect url_for_index),
                     session(''creds'' \<mapsto> creds_as_dict creds),
                     [ExchangeCallbackParameters consent (args rq)]))))"

text \<open>
  The form: \<open>QueryForm()\<close> reads the submitted fields when the request is a submission
  (\<open>POST\<close>, \<open>PUT\<close>, \<open>PATCH\<close>, \<open>DELETE\<close>); \<open>validate_on_submit\<close> is "submitted and
  the validators pass".
\<close>

definition is_submitted :: "request \<Rightarrow> bool" where
  "is_submitted rq = (request_method rq \<in> {POST, PUT, PATCH, DELETE})"

definition QueryForm :: "request \<Rightarrow> query_form" where
  "QueryForm rq = \<lparr>sql = (if is_submitted rq then form rq ''sql'' else None)\<rparr>"

definition validate_on_submit :: "env \<Rightarrow> request \<Rightarrow> query_form \<Rightarrow> bool" where
  "validate_on_submit e rq f = (is_submitted rq \<and> validate e f)"

text \<open>Reading a field of \<open>None\<close> raises \<open>AttributeError\<close>; iterating \<open>None\<close>, \<open>TypeError\<close>.\<close>

definition quoted :: "string \<Rightarrow> string" where
  "quoted s = [CHR 0x27] @ s @ [CHR 0x27]"

definition none_has_no_attribute :: "string \<Rightarrow> exn" where
  "none_has_no_attribute a =
     AttributeError (quoted ''NoneType'' @ '' object has no attribute '' @ quoted a)"

text \<open>\<open>[c.name for c in text_results.manifest.schema.columns]\<close>\<close>

definition column_names :: "statement_response \<Rightarrow> exn + string option list" where
  "column_names text_results =
     (case manifest text_results of
        None \<Rightarrow> Inl (none_has_no_attribute ''schema'')
      | Some m \<Rightarrow>
          (case schema m of
             None \<Rightarrow> Inl (none_has_no_attribute ''columns'')
           | Some sc \<Rightarrow>
               (case columns sc of
                  None \<Rightarrow> Inl (TypeError (quoted ''NoneType'' @ '' object is not iterable''))
                | Some cs \<Rightarrow> Inr (map name cs))))"

text \<open>\<open>text_results.result.data_array\<close>\<close>

definition result_data_array ::
  "statement_response \<Rightarrow> exn + string option list list option" where
  "result_data_array text_results =
     (case result text_results of
        None \<Rightarrow> Inl (none_has_no_attribute ''data_array'')
      | Some r \<Rightarrow> Inr (data_array r))"

text \<open>
  The body of the \<open>try\<close>:
  \<^verbatim>\<open>
  text_results = workspace_client.statement_execution.execute_statement(
      warehouse_id=warehouse_id, statement=query)
  columns = [c.name for c in text_results.manifest.schema.columns]
  df = pd.DataFrame(data = text_results.result.data_array, columns = columns)
  \<close>
\<close>

definition try_body :: "env \<Rightarrow> credentials \<Rightarrow> string option \<Rightarrow> exn + data_frame" where
  "try_body e credentials_provider query =
     (case execute_statement e credentials_provider (warehouse_id e) query of
        Inl x \<Rightarrow> Inl x
      | Inr text_results \<Rightarrow>
          (case column_names text_results of
             Inl x \<Rightarrow> Inl x
           | Inr cols \<Rightarrow>
               (case result_data_array text_results of
                  Inl x \<Rightarrow> Inl x
                | Inr data \<Rightarrow> DataFrame e data cols)))"

text \<open>
  The index view. Without \<open>"creds"\<close> in the session it starts a login; with them it builds
  the client from the stored credentials and, on a valid submission, runs the statement
  inside \<open>try\<close> / \<open>except Exception\<close> / \<open>else\<close>.
\<close>

definition index :: "env \<Rightarrow> session \<Rightarrow> request \<Rightarrow> view_result" where
  "index e session rq =
     (case session ''creds'' of
        None \<Rightarrow>
          (case initiate_consent e of
             Inl x \<Rightarrow> (Inl x, session, [InitiateConsent])
           | Inr consent \<Rightarrow>
               (Inr (Redirect (auth_url consent)),
                session(''consent'' \<mapsto> consent_as_dict consent),
                [InitiateConsent]))
      | Some raw \<Rightarrow>
          (case creds_from_dict raw of
             Inl x \<Rightarrow> (Inl x, session, [])
           | Inr credentials_provider \<Rightarrow>
               (let form = QueryForm rq in
                if validate_on_submit e rq form then
                  (let query = sql form;
                       calls = [ExecuteStatement credentials_provider (warehouse_id e) query]
                   in case try_body e credentials_provider query of
                        Inl x \<Rightarrow>
                          (Inr (Page form None [(format_exn x, ''alert-danger'')]),
                           session, calls)
                      | Inr df \<Rightarrow>
                          (Inr (Page form (Some (to_html e df)) []), session, calls))
                else (Inr (Page form None []), session, []))))"

subsection \<open>The request-handling boundary\<close>

text \<open>
  The routes: \<open>/callback\<close> accepts \<open>GET\<close> (and with it \<open>HEAD\<close>), \<open>/\<close> accepts \<open>GET\<close> and
  \<open>POST\<close>; \<open>OPTIONS\<close> is answered by the framework, any other method is refused. An
  exception that leaves the view function becomes the framework's server error page; the
  script registers no error handler.
\<close>

definition allowed_methods :: "endpoint \<Rightarrow> http_method set" where
  "allowed_methods ep = (case ep of Callback_view \<Rightarrow> {GET, HEAD} | Index_view \<Rightarrow> {GET, HEAD, POST})"

definition view_function :: "endpoint \<Rightarrow> env \<Rightarrow> session \<Rightarrow> request \<Rightarrow> view_result" where
  "view_function ep = (case ep of Callback_view \<Rightarrow> callback | Index_view \<Rightarrow> index)"

definition finalize :: "view_result \<Rightarrow> response \<times> session \<times> call list" where
  "finalize r =
     (case r of
        (Inl x, session, calls) \<Rightarrow> (InternalServerError x, session, calls)
      | (Inr rsp, session, calls) \<Rightarrow> (rsp, session, calls))"

definition handle_request :: "env \<Rightarrow> session \<Rightarrow> request \<Rightarrow> response \<times> session \<times> call list" where
  "handle_request e session rq =
     (if request_method rq \<in> allowed_methods (endpoint rq)
        then finalize (view_function (endpoint rq) e session rq)
      else if request_method rq = OPTIONS then (OptionsResponse, session, [])
      else (MethodNotAllowed, session, []))"

text \<open>The three parts of an answer.\<close>

definition response_of :: "response \<times> session \<times> call list \<Rightarrow> response" where
  "response_of r = fst r"

definition session_of :: "response \<times> session \<times> call list \<Rightarrow> session" where
  "session_of r = fst (snd r)"

definition calls_of :: "response \<times> session \<times> call list \<Rightarrow> call list" where
  "calls_of r = snd (snd r)"

section \<open>The callback exchanger of the OAuth helper\<close>

text \<open>The provider's token endpoint: given the authorization code of the callback (if it
  carries one) and the verifier, it answers with a failure message or with credentials.\<close>

type_synonym token_endpoint = "string option \<Rightarrow> string \<Rightarrow> string + credentials"

text \<open>
  Modelled from the spec: \<open>consent.exchange_callback_parameters\<close> belongs to the OAuth
  helper library, which is not part of the sources. Its contract (section 4.3 of the
  specification) is: compare the callback's \<open>state\<close> with the expected one and fail with
  \<open>StateMismatchError\<close> when they differ; fail with \<open>AuthorizationDeniedError\<close> when the
  callback carries an \<open>error\<close> parameter; otherwise call the provider's token endpoint with
  the authorization code and the verifier, failing with \<open>TokenExchangeError\<close> when that
  call fails, and return the credentials it issues. The token endpoint is a parameter.
\<close>

definition exchange ::
  "token_endpoint \<Rightarrow> string \<Rightarrow> string \<Rightarrow> (string \<rightharpoonup> string) \<Rightarrow> exn + credentials" where
  "exchange token_endpoint verifier_secret state_expected callback_params =
     (if callback_params ''state'' \<noteq> Some state_expected then Inl StateMismatchError
      else case callback_params ''error'' of
             Some err \<Rightarrow> Inl (AuthorizationDeniedError err)
           | None \<Rightarrow>
               (case token_endpoint (callback_params ''code'') verifier_secret of
                  Inl msg \<Rightarrow> Inl (TokenExchangeError msg)
                | Inr creds \<Rightarrow> Inr creds))"

text \<open>The collaborators with this exchanger in the place of the helper's method.\<close>

definition with_exchanger :: "token_endpoint \<Rightarrow> env \<Rightarrow> env" where
  "with_exchanger token_endpoint e =
     e\<lparr>exchange_callback_parameters :=
         (\<lambda>consent callback_params.
            exchange token_endpoint (verifier consent) (state consent) callback_params)\<rparr>"

section \<open>The consent initiator of the OAuth helper\<close>

text \<open>
  Modelled from the spec: section 4.2 of the specification requires every parameter of the
  authorization URL to be URL-encoded; the encoding is done inside the OAuth helper library,
  which is not part of the sources. It is percent-encoding: letters, digits and \<open>-\<close> (45),
  \<open>.\<close> (46), \<open>_\<close> (95), \<open>~\<close> (126) stand for themselves, any other byte is written
  \<open>%\<close> and two upper-case hexadecimal digits. \<open>url_decode\<close> reads it back.
\<close>

definition hex_upper :: "nat \<Rightarrow> char" where
  "hex_upper d = char_of (if d < 10 then 48 + d else 55 + d)"

definition unhex :: "char \<Rightarrow> nat" where
  "unhex c =
     (let n = of_char c :: nat
      in if 48 \<le> n \<and> n \<le> 57 then n - 48
         else if 65 \<le> n \<and> n \<le> 70 then n - 55
         else if 97 \<le> n \<and> n \<le> 102 then n - 87
         else 0)"

definition unreserved :: "char \<Rightarrow> bool" where
  "unreserved c =
     (let n = of_char c :: nat
      in (65 \<le> n \<and> n \<le> 90) \<or> (97 \<le> n \<and> n \<le> 122) \<or> (48 \<le> n \<and> n \<le> 57)
         \<or> n = 45 \<or> n = 46 \<or> n = 95 \<or> n = 126)"

definition percent_encode :: "char \<Rightarrow> string" where
  "percent_encode c =
     (if unreserved c then [c]
      else [CHR ''%'', hex_upper (of_char c div 16), hex_upper (of_char c mod 16)])"

definition url_encode :: "string \<Rightarrow> string" where
  "url_encode s = concat (map percent_encode s)"

fun url_decode :: "string \<Rightarrow> string" where
  "url_decode (c # a # b # rest) =
     (if c = CHR ''%'' then char_of (16 * unhex a + unhex b) # url_decode rest
      else c # url_decode (a # b # rest))"
| "url_decode cs = cs"

text \<open>A query string: \<open>key=value\<close> pairs, both sides encoded, separated by \<open>&\<close>.\<close>

fun query_string :: "(string \<times> string) list \<Rightarrow> string" where
  "query_string [] = []"
| "query_string [(k, v)] = url_encode k @ ''='' @ url_encode v"
| "query_string ((k, v) # p # ps) =
     url_encode k @ ''='' @ url_encode v @ ''&'' @ query_string (p # ps)"

text \<open>
  Reading a URL as the receiver does: the query is what follows the first \<open>?\<close>, up to a
  \<open>#\<close> if there is one; it is cut at each \<open>&\<close>, each piece at its first \<open>=\<close>, and both
  sides are decoded.
\<close>

fun split_on :: "char \<Rightarrow> string \<Rightarrow> string list" where
  "split_on sep [] = [[]]"
| "split_on sep (c # cs) =
     (if c = sep then [] # split_on sep cs
      else (case split_on sep cs of [] \<Rightarrow> [[c]] | w # ws \<Rightarrow> (c # w) # ws))"

definition parse_pair :: "string \<Rightarrow> string \<times> string" where
  "parse_pair item =
     (url_decode (takeWhile (\<lambda>c. c \<noteq> CHR ''='') item),
      url_decode (drop 1 (dropWhile (\<lambda>c. c \<noteq> CHR ''='') item)))"

definition parse_query :: "string \<Rightarrow> (string \<times> string) list" where
  "parse_query q = (if q = [] then [] else map parse_pair (split_on CHR ''&'' q))"

definition url_query :: "string \<Rightarrow> string" where
  "url_query url =
     takeWhile (\<lambda>c. c \<noteq> CHR ''#'') (drop 1 (dropWhile (\<lambda>c. c \<noteq> CHR ''?'') url))"

definition query_parameter :: "string \<Rightarrow> string \<Rightarrow> string option" where
  "query_parameter url key = map_of (parse_query (url_query url)) key"

text \<open>The client configuration, as \<open>init_oauth_config\<close> hands it to the OAuth helper.\<close>

record oauth_client_config =
  host :: string
  client_id :: string
  client_secret :: string
  redirect_url :: string
  scopes :: "string list"

fun space_separated :: "string list \<Rightarrow> string" where
  "space_separated [] = []"
| "space_separated [x] = x"
| "space_separated (x # y # ys) = x @ '' '' @ space_separated (y # ys)"

text \<open>
  Modelled from the spec: \<open>oauth_client.initiate_consent()\<close> belongs to the OAuth helper
  library, which is not part of the sources. Section 4.1 of the specification:
  \<open>generate()\<close> yields a random verifier, the challenge derived from it by a one-way
  transform, and an independent random state; it fails with \<open>EntropySourceError\<close> when the
  random source is unavailable. The random source and the transform are parameters: the
  source answers with a failure message or with a verifier and a state.
\<close>

definition generate ::
  "(string \<Rightarrow> string) \<Rightarrow> string + string \<times> string \<Rightarrow> exn + string \<times> string \<times> string" where
  "generate transform random =
     (case random of
        Inl msg \<Rightarrow> Inl (EntropySourceError msg)
      | Inr (v, st) \<Rightarrow> Inr (v, transform v, st))"

text \<open>
  Modelled from the spec: the query parameters of section 4.2 of the specification, built
  inside the OAuth helper library: \<open>client_id\<close>, \<open>redirect_url\<close>, the requested scopes,
  the challenge and the state. They are named by the specification's words for them; the
  scopes are one parameter, separated by spaces.
\<close>

definition auth_params ::
  "oauth_client_config \<Rightarrow> string \<Rightarrow> string \<Rightarrow> (string \<times> string) list" where
  "auth_params config challenge st =
     [(''client_id'', client_id config),
      (''redirect_url'', redirect_url config),
      (''scopes'', space_separated (scopes config)),
      (''challenge'', challenge),
      (''state'', st)]"

text \<open>
  Modelled from the spec: section 4.2 of the specification,
  \<open>build_auth_url(config, challenge, state)\<close>, the helper's construction of the URL: the
  provider's authorization endpoint followed by the query parameters, every one of them
  URL-encoded. The endpoint is a parameter.
\<close>

definition build_auth_url ::
  "string \<Rightarrow> oauth_client_config \<Rightarrow> string \<Rightarrow> string \<Rightarrow> string" where
  "build_auth_url authorization_endpoint config challenge st =
     authorization_endpoint @ ''?'' @ query_string (auth_params config challenge st)"

text \<open>
  Modelled from the spec: the consent request of section 3, made of what \<open>generate\<close>
  yields and of the URL built from it. This is what \<open>oauth_client.initiate_consent()\<close>
  returns.
\<close>

definition initiate ::
  "(string \<Rightarrow> string) \<Rightarrow> string \<Rightarrow> oauth_client_config \<Rightarrow> string + string \<times> string
     \<Rightarrow> exn + consent" where
  "initiate transform authorization_endpoint config random =
     (case generate transform random of
        Inl x \<Rightarrow> Inl x
      | Inr (v, challenge, st) \<Rightarrow>
          Inr \<lparr>state = st, verifier = v,
               auth_url = build_auth_url authorization_endpoint config challenge st\<rparr>)"

text \<open>The collaborators with this initiator in the place of the helper's method.\<close>

definition with_initiator ::
  "(string \<Rightarrow> string) \<Rightarrow> string \<Rightarrow> oauth_client_config \<Rightarrow> string + string \<times> string
     \<Rightarrow> env \<Rightarrow> env" where
  "with_initiator transform authorization_endpoint config random e =
     e\<lparr>initiate_consent := initiate transform authorization_endpoint config random\<rparr>"

section \<open>Observations on answers\<close>

fun is_execute_statement :: "call \<Rightarrow> bool" where
  "is_execute_statement (ExecuteStatement _ _ _) = True"
| "is_execute_statement _ = False"

fun is_redirect :: "response \<Rightarrow> bool" where
  "is_redirect (Redirect _) = True"
| "is_redirect _ = False"

section \<open>A concrete deployment\<close>

text \<open>
  One consent, two sets of credentials (one still valid at the time of the requests, one
  expired), and collaborators that behave as a provider would: the exchange accepts the
  authorization code \<open>ABC\<close> only, the execution client first refreshes expired credentials
  (which the provider refuses here) and then runs \<open>SELECT 1\<close> and rejects anything else.
\<close>

definition example_consent :: consent where
  "example_consent =
     \<lparr>state = ''S1'', verifier = ''V1'',
      auth_url = ''https://provider.example/oidc/v1/authorize?state=S1''\<rparr>"

definition example_creds :: credentials where
  "example_creds = \<lparr>access_token = ''AT1'', refresh_token = Some ''RT1'', expiry = 3600\<rparr>"

definition expired_creds :: credentials where
  "expired_creds = \<lparr>access_token = ''AT0'', refresh_token = Some ''RT0'', expiry = 10\<rparr>"

definition example_now :: nat where
  "example_now = 1000"

definition example_exchange :: "consent \<Rightarrow> (string \<rightharpoonup> string) \<Rightarrow> exn + credentials" where
  "example_exchange c params =
     (if params ''code'' = Some ''ABC'' then Inr example_creds
      else Inl (TokenExchangeError ''invalid_grant''))"

definition example_statement_response :: statement_response where
  "example_statement_response =
     \<lparr>manifest = Some (ResultManifest (Some (ResultSchema (Some [ColumnInfo (Some ''1'')])))),
      result = Some (ResultData (Some [[Some ''1'']]))\<rparr>"

definition example_execute_statement ::
  "credentials \<Rightarrow> string \<Rightarrow> string option \<Rightarrow> exn + statement_response" where
  "example_execute_statement creds wid statement =
     (if expiry creds \<le> example_now then Inl (TokenExchangeError ''refresh token rejected'')
      else if statement = Some ''SELECT 1'' then Inr example_statement_response
      else Inl (QueryExecutionError ''PARSE_SYNTAX_ERROR''))"

definition example_validate :: "query_form \<Rightarrow> bool" where
  "example_validate f = (sql f \<noteq> None \<and> sql f \<noteq> Some [])"

definition example_DataFrame ::
  "string option list list option \<Rightarrow> string option list \<Rightarrow> exn + data_frame" where
  "example_DataFrame data cols =
     (case data of
        None \<Rightarrow> Inr \<lparr>df_columns = cols, df_data = []\<rparr>
      | Some rows \<Rightarrow>
          (if list_all (\<lambda>r. length r = length cols) rows
           then Inr \<lparr>df_columns = cols, df_data = rows\<rparr>
           else Inl (ValueError ''columns passed do not match the data'')))"

definition example_to_html :: "data_frame \<Rightarrow> string" where
  "example_to_html df = ''<table>'' @ concat (map (case_option ''None'' id) (df_columns df)) @ ''</table>''"

definition example_env :: env where
  "example_env =
     \<lparr>initiate_consent = Inr example_consent,
      exchange_callback_parameters = example_exchange,
      execute_statement = example_execute_statement,
      validate = example_validate,
      DataFrame = example_DataFrame,
      to_html = example_to_html,
      warehouse_id = ''wh1''\<rparr>"

text \<open>A token endpoint for the exchanger of section 4.3: it accepts \<open>ABC\<close> with \<open>V1\<close>.\<close>

definition example_token_endpoint :: token_endpoint where
  "example_token_endpoint code v =
     (if code = Some ''ABC'' \<and> v = ''V1'' then Inr example_creds else Inl ''invalid_grant'')"

text \<open>The helper's configuration for a local run on port 5001, a stand-in for the one-way
  transform, and the provider's authorization endpoint.\<close>

definition example_config :: oauth_client_config where
  "example_config =
     \<lparr>host = ''https://provider.example'', client_id = ''app-1'', client_secret = ''s3cr3t'',
      redirect_url = ''http://localhost:5001/callback'', scopes = [''all-apis'']\<rparr>"

definition example_transform :: "string \<Rightarrow> string" where
  "example_transform v = rev v"

definition example_endpoint :: string where
  "example_endpoint = ''https://provider.example/oidc/v1/authorize''"

text \<open>Sessions: a fresh one, one with a login pending, one logged in, one whose credentials
  have expired.\<close>

definition fresh_session :: session where
  "fresh_session = Map.empty"

definition pending_session :: session where
  "pending_session = [''consent'' \<mapsto> ConsentDict example_consent]"

definition authenticated_session :: session where
  "authenticated_session =
     [''consent'' \<mapsto> ConsentDict example_consent, ''creds'' \<mapsto> CredsDict example_creds]"

definition expired_session :: session where
  "expired_session =
     [''consent'' \<mapsto> ConsentDict example_consent, ''creds'' \<mapsto> CredsDict expired_creds]"

text \<open>Requests: \<open>GET /\<close>, \<open>POST /\<close> with a good and with a bad statement,
  \<open>GET /callback\<close> with the right state, with a wrong state, and with a code the provider
  no longer accepts.\<close>

definition get_index :: request where
  "get_index = \<lparr>endpoint = Index_view, request_method = GET, args = Map.empty, form = Map.empty\<rparr>"

definition post_select :: request where
  "post_select =
     \<lparr>endpoint = Index_view, request_method = POST, args = Map.empty, form = [''sql'' \<mapsto> ''SELECT 1'']\<rparr>"

definition post_bad_statement :: request where
  "post_bad_statement =
     \<lparr>endpoint = Index_view, request_method = POST, args = Map.empty, form = [''sql'' \<mapsto> ''SELEC 1'']\<rparr>"

definition get_callback :: request where
  "get_callback =
     \<lparr>endpoint = Callback_view, request_method = GET,
      args = [''code'' \<mapsto> ''ABC'', ''state'' \<mapsto> ''S1''], form = Map.empty\<rparr>"

definition get_callback_wrong_state :: request where
  "get_callback_wrong_state =
     \<lparr>endpoint = Callback_view, request_method = GET,
      args = [''code'' \<mapsto> ''ABC'', ''state'' \<mapsto> ''WRONG''], form = Map.empty\<rparr>"

definition get_callback_stale_code :: request where
  "get_callback_stale_code =
     \<lparr>endpoint = Callback_view, request_method = GET,
      args = [''code'' \<mapsto> ''USED'', ''state'' \<mapsto> ''S1''], form = Map.empty\<rparr>"

lemmas example_env_defs =
  example_env_def example_consent_def example_creds_def example_now_def
  example_exchange_def example_statement_response_def example_execute_statement_def
  example_validate_def example_DataFrame_def example_to_html_def

section \<open>What the handlers do, branch by branch\<close>

lemma finalize_simps:
  "finalize (Inl x, s, cs) = (InternalServerError x, s, cs)"
  "finalize (Inr rsp, s, cs) = (rsp, s, cs)"
  by (simp_all add: finalize_def)

lemma finalize_parts:
  "fst (snd (finalize r)) = fst (snd r)" "snd (snd (finalize r)) = snd (snd r)"
  by (simp_all add: finalize_def split: prod.split sum.split)

lemma handle_callback_GET:
  "endpoint rq = Callback_view \<Longrightarrow> request_method rq = GET \<Longrightarrow>
   handle_request e session rq = finalize (callback e session rq)"
  by (simp add: handle_request_def allowed_methods_def view_function_def)

lemma handle_index_GET:
  "endpoint rq = Index_view \<Longrightarrow> request_method rq = GET \<Longrightarrow>
   handle_request e session rq = finalize (index e session rq)"
  by (simp add: handle_request_def allowed_methods_def view_function_def)

lemma handle_index_POST:
  "endpoint rq = Index_view \<Longrightarrow> request_method rq = POST \<Longrightarrow>
   handle_request e session rq = finalize (index e session rq)"
  by (simp add: handle_request_def allowed_methods_def view_function_def)

lemma callback_no_consent:
  "session ''consent'' = None \<Longrightarrow>
   callback e session rq = (Inl (KeyError ''consent''), session, [])"
  by (simp add: callback_def)

lemma callback_raises:
  "session ''consent'' = Some (ConsentDict c) \<Longrightarrow>
   exchange_callback_parameters e c (args rq) = Inl x \<Longrightarrow>
   callback e session rq = (Inl x, session, [ExchangeCallbackParameters c (args rq)])"
  by (simp add: callback_def)

lemma callback_returns:
  "session ''consent'' = Some (ConsentDict c) \<Longrightarrow>
   exchange_callback_parameters e c (args rq) = Inr creds \<Longrightarrow>
   callback e session rq =
     (Inr (Redirect url_for_index), session(''creds'' \<mapsto> CredsDict creds),
      [ExchangeCallbackParameters c (args rq)])"
  by (simp add: callback_def creds_as_dict_def)

lemma callback_keeps_consent:
  "fst (snd (callback e session rq)) ''consent'' = session ''consent''"
  by (simp add: callback_def split: option.split sum.split)

lemma callback_never_executes:
  "\<not> list_ex is_execute_statement (snd (snd (callback e session rq)))"
  by (simp add: callback_def split: option.split sum.split)

lemma with_exchanger_exchange:
  "exchange_callback_parameters (with_exchanger tok e) c params =
     exchange tok (verifier c) (state c) params"
  by (simp add: with_exchanger_def)

lemma index_no_creds:
  "session ''creds'' = None \<Longrightarrow> initiate_consent e = Inr c \<Longrightarrow>
   index e session rq =
     (Inr (Redirect (auth_url c)), session(''consent'' \<mapsto> consent_as_dict c),
      [InitiateConsent])"
  by (simp add: index_def)

lemma index_no_creds_calls:
  "session ''creds'' = None \<Longrightarrow> snd (snd (index e session rq)) = [InitiateConsent]"
  by (simp add: index_def split: sum.split)

lemma index_not_submitted:
  "session ''creds'' = Some (CredsDict cr) \<Longrightarrow> \<not> is_submitted rq \<Longrightarrow>
   index e session rq = (Inr (Page \<lparr>sql = None\<rparr> None []), session, [])"
  by (simp add: index_def validate_on_submit_def QueryForm_def Let_def)

lemma index_submitted_raises:
  "session ''creds'' = Some (CredsDict cr) \<Longrightarrow> request_method rq = POST \<Longrightarrow>
   validate e (QueryForm rq) \<Longrightarrow> try_body e cr (form rq ''sql'') = Inl x \<Longrightarrow>
   index e session rq =
     (Inr (Page (QueryForm rq) None [(format_exn x, ''alert-danger'')]), session,
      [ExecuteStatement cr (warehouse_id e) (form rq ''sql'')])"
  by (simp add: index_def validate_on_submit_def QueryForm_def Let_def is_submitted_def)

lemma index_keeps_creds:
  "fst (snd (index e session rq)) ''creds'' = session ''creds''"
  by (simp add: index_def Let_def split: option.split sum.split)

lemma index_with_creds_no_redirect:
  "session ''creds'' = Some v \<Longrightarrow> index e session rq = (Inr rsp, s', cs) \<Longrightarrow>
   \<not> is_redirect rsp"
  by (auto simp add: index_def Let_def split: option.splits sum.splits if_splits)

section \<open>What the URL of a consent carries\<close>

lemma unhex_hex_upper: "d < 16 \<Longrightarrow> unhex (hex_upper d) = d"
  by (simp add: unhex_def hex_upper_def)

lemma unreserved_hex_upper: "d < 16 \<Longrightarrow> unreserved (hex_upper d)"
  by (simp add: unreserved_def hex_upper_def)

lemma unreserved_not_special:
  "unreserved c \<Longrightarrow>
   c \<noteq> CHR ''%'' \<and> c \<noteq> CHR ''='' \<and> c \<noteq> CHR ''&'' \<and> c \<noteq> CHR ''#'' \<and> c \<noteq> CHR ''?''"
  by (auto simp add: unreserved_def)

lemma of_char_div_16: "(of_char c :: nat) div 16 < 16"
proof -
  have "(of_char c :: nat) < 256" by simp
  then show ?thesis by (simp add: less_mult_imp_div_less)
qed

lemma url_decode_Cons:
  assumes "c \<noteq> CHR ''%''"
  shows "url_decode (c # xs) = c # url_decode xs"
proof (cases xs)
  case Nil
  then show ?thesis by simp
next
  case (Cons a ys)
  with assms show ?thesis by (cases ys) simp_all
qed

lemma url_decode_percent:
  "url_decode (CHR ''%'' # a # b # rest) = char_of (16 * unhex a + unhex b) # url_decode rest"
  by simp

lemma decode_percent_encode:
  "url_decode (percent_encode c @ rest) = c # url_decode rest"
proof (cases "unreserved c")
  case True
  then show ?thesis
    by (simp add: percent_encode_def url_decode_Cons unreserved_not_special)
next
  case False
  have "char_of (16 * unhex (hex_upper (of_char c div 16)) + unhex (hex_upper (of_char c mod 16)))
          = char_of (of_char c :: nat)"
    by (simp add: unhex_hex_upper of_char_div_16)
  with False show ?thesis
    by (simp add: percent_encode_def del: url_decode.simps add: url_decode_percent)
qed

lemma url_decode_encode: "url_decode (url_encode s) = s"
proof (induction s)
  case Nil
  then show ?case by (simp add: url_encode_def)
next
  case (Cons c s)
  have "url_encode (c # s) = percent_encode c @ url_encode s"
    by (simp add: url_encode_def)
  with Cons show ?case
    by (simp add: decode_percent_encode)
qed

lemma set_percent_encode:
  "x \<in> set (percent_encode c) \<Longrightarrow> unreserved x \<or> x = CHR ''%''"
  by (auto simp add: percent_encode_def unreserved_hex_upper of_char_div_16 split: if_splits)

lemma set_url_encode:
  "x \<in> set (url_encode s) \<Longrightarrow> unreserved x \<or> x = CHR ''%''"
  by (auto simp add: url_encode_def dest: set_percent_encode)

lemma url_encode_no_separator:
  "CHR ''='' \<notin> set (url_encode s)" "CHR ''&'' \<notin> set (url_encode s)"
  "CHR ''#'' \<notin> set (url_encode s)"
  using set_url_encode unreserved_not_special by fastforce+

lemma split_on_no_separator: "sep \<notin> set x \<Longrightarrow> split_on sep x = [x]"
  by (induction x) auto

lemma split_on_append:
  "sep \<notin> set x \<Longrightarrow> split_on sep (x @ sep # rest) = x # split_on sep rest"
  by (induction x) auto

lemma parse_pair_encoded:
  "parse_pair (url_encode k @ CHR ''='' # url_encode v) = (k, v)"
proof -
  have "takeWhile (\<lambda>c. c \<noteq> CHR ''='') (url_encode k @ ''='' @ url_encode v) = url_encode k"
    using url_encode_no_separator(1) [of k] by (simp add: takeWhile_append)
  moreover have "dropWhile (\<lambda>c. c \<noteq> CHR ''='') (url_encode k @ ''='' @ url_encode v)
                   = ''='' @ url_encode v"
    using url_encode_no_separator(1) [of k] by (simp add: dropWhile_append)
  ultimately show ?thesis
    by (simp add: parse_pair_def url_decode_encode)
qed

lemma pair_no_ampersand: "CHR ''&'' \<notin> set (url_encode k @ CHR ''='' # url_encode v)"
  using url_encode_no_separator(2) by simp

lemma query_string_nonempty: "ps \<noteq> [] \<Longrightarrow> query_string ps \<noteq> []"
  by (induction ps rule: query_string.induct) simp_all

lemma query_string_no_hash: "CHR ''#'' \<notin> set (query_string ps)"
  by (induction ps rule: query_string.induct) (simp_all add: url_encode_no_separator)

lemma split_query_string:
  "ps \<noteq> [] \<Longrightarrow> map parse_pair (split_on CHR ''&'' (query_string ps)) = ps"
proof (induction ps rule: query_string.induct)
  case 1
  then show ?case by simp
next
  case (2 k v)
  have "split_on CHR ''&'' (url_encode k @ CHR ''='' # url_encode v)
          = [url_encode k @ CHR ''='' # url_encode v]"
    by (rule split_on_no_separator) (rule pair_no_ampersand)
  then show ?case
    by (simp add: parse_pair_encoded)
next
  case (3 k v p ps)
  have "split_on CHR ''&''
          ((url_encode k @ CHR ''='' # url_encode v) @ CHR ''&'' # query_string (p # ps))
          = (url_encode k @ CHR ''='' # url_encode v)
            # split_on CHR ''&'' (query_string (p # ps))"
    by (rule split_on_append) (rule pair_no_ampersand)
  with 3 show ?case
    by (simp add: parse_pair_encoded)
qed

lemma parse_query_string: "parse_query (query_string ps) = ps"
proof (cases ps)
  case Nil
  then show ?thesis by (simp add: parse_query_def)
next
  case (Cons p qs)
  then have "ps \<noteq> []" by simp
  then show ?thesis
    by (simp add: parse_query_def query_string_nonempty split_query_string)
qed

lemma url_query_append:
  assumes "CHR ''?'' \<notin> set ep" and "CHR ''#'' \<notin> set q"
  shows "url_query (ep @ ''?'' @ q) = q"
proof -
  have "dropWhile (\<lambda>c. c \<noteq> CHR ''?'') (ep @ ''?'' @ q) = ''?'' @ q"
    using assms(1) by (simp add: dropWhile_append)
  moreover have "takeWhile (\<lambda>c. c \<noteq> CHR ''#'') q = q"
    using assms(2) by (auto simp add: takeWhile_eq_all_conv)
  ultimately show ?thesis
    by (simp add: url_query_def)
qed

lemma auth_url_carries_state:
  assumes "CHR ''?'' \<notin> set ep"
  shows "query_parameter (build_auth_url ep config challenge st) ''state'' = Some st"
proof -
  have "url_query (build_auth_url ep config challenge st)
          = query_string (auth_params config challenge st)"
    unfolding build_auth_url_def
    by (rule url_query_append [OF assms query_string_no_hash])
  then have "parse_query (url_query (build_auth_url ep config challenge st))
               = auth_params config challenge st"
    by (simp only: parse_query_string)
  then have "query_parameter (build_auth_url ep config challenge st) ''state''
               = map_of (auth_params config challenge st) ''state''"
    by (simp only: query_parameter_def)
  then show ?thesis
    by (simp add: auth_params_def)
qed

lemma initiate_returns:
  "initiate transform ep config (Inr (v, st)) =
     Inr \<lparr>state = st, verifier = v, auth_url = build_auth_url ep config (transform v) st\<rparr>"
  by (simp add: initiate_def generate_def)

lemma example_auth_url:
  "build_auth_url example_endpoint example_config (example_transform ''V1'') ''S1'' =
     ''https://provider.example/oidc/v1/authorize?client_id=app-1&redirect_url=http%3A%2F%2Flocalhost%3A5001%2Fcallback&scopes=all-apis&challenge=1V&state=S1''"
  by code_simp

section \<open>The claims\<close>

text \<open>
  C1. A callback whose \<open>state\<close> parameter differs from the state of the consent stored
  in the session is rejected, and no credentials are created: the exchanger raises
  \<open>StateMismatchError\<close>, the exception leaves the view before the assignment to
  \<open>session["creds"]\<close>, and the session is left exactly as it was.
\<close>

theorem callback_state_mismatch_rejected:
  assumes "endpoint rq = Callback_view" and "request_method rq = GET"
    and "session ''consent'' = Some (consent_as_dict c)"
    and "args rq ''state'' \<noteq> Some (state c)"
  shows "handle_request (with_exchanger tok e) session rq =
           (InternalServerError StateMismatchError, session,
            [ExchangeCallbackParameters c (args rq)])"
proof -
  have "exchange_callback_parameters (with_exchanger tok e) c (args rq) =
          Inl StateMismatchError"
    using assms(4) by (simp add: with_exchanger_exchange exchange_def)
  with assms(3) have "callback (with_exchanger tok e) session rq =
      (Inl StateMismatchError, session, [ExchangeCallbackParameters c (args rq)])"
    by (simp add: callback_raises consent_as_dict_def)
  with assms(1,2) show ?thesis
    by (simp add: handle_callback_GET finalize_simps)
qed

theorem callback_state_mismatch_rejected_witness:
  "args get_callback_wrong_state ''state'' \<noteq> Some (state example_consent)
   \<and> handle_request (with_exchanger example_token_endpoint example_env) pending_session
         get_callback_wrong_state =
       (InternalServerError StateMismatchError, pending_session,
        [ExchangeCallbackParameters example_consent (args get_callback_wrong_state)])
   \<and> pending_session ''creds'' = None"
proof -
  have h1: "endpoint get_callback_wrong_state = Callback_view"
    and h2: "request_method get_callback_wrong_state = GET"
    and h3: "pending_session ''consent'' = Some (consent_as_dict example_consent)"
    and h4: "args get_callback_wrong_state ''state'' \<noteq> Some (state example_consent)"
    by (simp_all add: get_callback_wrong_state_def pending_session_def consent_as_dict_def
        example_consent_def)
  show ?thesis
    using callback_state_mismatch_rejected
        [where rq = get_callback_wrong_state and session = pending_session
           and c = example_consent and tok = example_token_endpoint and e = example_env]
      h1 h2 h3 h4
    by (simp add: pending_session_def)
qed

text \<open>
  C2, as the code has it. An exception raised while the statement is executed on
  \<open>POST /\<close> (by the execution call, or while its result is read into the data frame) is
  caught and becomes a flashed message on the page. An exception raised by the token
  exchange on \<open>GET /callback\<close> is not caught: it leaves the view function and the
  framework answers with its server error page.
\<close>

theorem execution_errors_caught_exchange_errors_not:
  "(endpoint rq = Index_view \<longrightarrow> request_method rq = POST \<longrightarrow>
      session ''creds'' = Some (creds_as_dict cr) \<longrightarrow> validate e (QueryForm rq) \<longrightarrow>
      try_body e cr (form rq ''sql'') = Inl x \<longrightarrow>
      response_of (handle_request e session rq) =
        Page (QueryForm rq) None [(format_exn x, ''alert-danger'')])
 \<and> (endpoint rq2 = Callback_view \<longrightarrow> request_method rq2 = GET \<longrightarrow>
      session2 ''consent'' = Some (consent_as_dict c) \<longrightarrow>
      exchange_callback_parameters e c (args rq2) = Inl x2 \<longrightarrow>
      response_of (handle_request e session2 rq2) = InternalServerError x2)"
  by (simp add: response_of_def handle_index_POST handle_callback_GET index_submitted_raises
      callback_raises finalize_simps creds_as_dict_def consent_as_dict_def)

theorem execution_errors_caught_exchange_errors_not_witness:
  "response_of (handle_request example_env authenticated_session post_bad_statement) =
     Page (QueryForm post_bad_statement) None [(''PARSE_SYNTAX_ERROR'', ''alert-danger'')]
   \<and> response_of (handle_request example_env authenticated_session get_callback_stale_code) =
       InternalServerError (TokenExchangeError ''invalid_grant'')"
  using execution_errors_caught_exchange_errors_not
    [where rq = post_bad_statement and session = authenticated_session
       and cr = example_creds and e = example_env
       and x = "QueryExecutionError ''PARSE_SYNTAX_ERROR''"
       and ?rq2.0 = get_callback_stale_code and ?session2.0 = authenticated_session
       and c = example_consent and ?x2.0 = "TokenExchangeError ''invalid_grant''"]
  by (simp add: example_env_defs authenticated_session_def post_bad_statement_def
      get_callback_stale_code_def creds_as_dict_def consent_as_dict_def QueryForm_def
      is_submitted_def try_body_def)

text \<open>
  C2, as the specification words it, fails: with a consent pending, a callback carrying a
  code the provider refuses makes the token exchange raise, and the answer is the server
  error page.
\<close>

theorem token_exchange_error_propagates:
  "response_of (handle_request example_env pending_session get_callback_stale_code) =
     InternalServerError (TokenExchangeError ''invalid_grant'')"
  by (simp add: response_of_def handle_request_def allowed_methods_def view_function_def
      callback_def finalize_def example_env_defs pending_session_def
      get_callback_stale_code_def)

text \<open>
  C3, as the code has it. The callback reads the consent stored in the session and leaves
  it there: after a request to \<open>/callback\<close>, whatever the outcome of the exchange,
  \<open>session["consent"]\<close> is what it was before.
\<close>

theorem consent_stays_in_session:
  assumes "endpoint rq = Callback_view"
  shows "session_of (handle_request e session rq) ''consent'' = session ''consent''"
  using assms
  by (simp add: session_of_def handle_request_def view_function_def finalize_parts
      callback_keeps_consent)

theorem consent_stays_in_session_witness:
  "session_of (handle_request example_env pending_session get_callback) ''consent'' =
     pending_session ''consent''"
proof -
  have h: "endpoint get_callback = Callback_view"
    by (simp add: get_callback_def)
  show ?thesis
    using consent_stays_in_session
        [where rq = get_callback and session = pending_session and e = example_env] h
    by simp
qed

text \<open>
  C3, as the specification words it, fails: after a callback whose exchange succeeded the
  credentials are stored and the consent is still in the session.
\<close>

theorem consent_not_discarded:
  "session_of (handle_request example_env pending_session get_callback) ''creds'' =
     Some (CredsDict example_creds)
   \<and> session_of (handle_request example_env pending_session get_callback) ''consent'' \<noteq> None"
  by (simp add: session_of_def handle_request_def allowed_methods_def view_function_def
      callback_def finalize_def creds_as_dict_def example_env_defs pending_session_def
      get_callback_def)

text \<open>
  C4. On \<open>POST /\<close> from a session with credentials and a form that validates, when the
  execution call raises, the answer is the page with the form, the exception's message
  flashed under \<open>alert-danger\<close>, and no table.
\<close>

theorem query_error_is_flashed:
  assumes "endpoint rq = Index_view" and "request_method rq = POST"
    and "session ''creds'' = Some (creds_as_dict cr)"
    and "validate e (QueryForm rq)"
    and "execute_statement e cr (warehouse_id e) (form rq ''sql'') = Inl x"
  shows "handle_request e session rq =
           (Page (QueryForm rq) None [(format_exn x, ''alert-danger'')], session,
            [ExecuteStatement cr (warehouse_id e) (form rq ''sql'')])"
proof -
  have "try_body e cr (form rq ''sql'') = Inl x"
    using assms(5) by (simp add: try_body_def)
  with assms(2-4) have "index e session rq =
      (Inr (Page (QueryForm rq) None [(format_exn x, ''alert-danger'')]), session,
       [ExecuteStatement cr (warehouse_id e) (form rq ''sql'')])"
    by (simp add: index_submitted_raises creds_as_dict_def)
  with assms(1,2) show ?thesis
    by (simp add: handle_index_POST finalize_simps)
qed

theorem query_error_is_flashed_witness:
  "handle_request example_env authenticated_session post_bad_statement =
     (Page \<lparr>sql = Some ''SELEC 1''\<rparr> None [(''PARSE_SYNTAX_ERROR'', ''alert-danger'')],
      authenticated_session,
      [ExecuteStatement example_creds ''wh1'' (Some ''SELEC 1'')])"
proof -
  have h1: "endpoint post_bad_statement = Index_view"
    and h2: "request_method post_bad_statement = POST"
    and h3: "authenticated_session ''creds'' = Some (creds_as_dict example_creds)"
    and h4: "validate example_env (QueryForm post_bad_statement)"
    and h5: "execute_statement example_env example_creds (warehouse_id example_env)
               (form post_bad_statement ''sql'') = Inl (QueryExecutionError ''PARSE_SYNTAX_ERROR'')"
    by (simp_all add: example_env_defs authenticated_session_def post_bad_statement_def
        creds_as_dict_def QueryForm_def is_submitted_def)
  show ?thesis
    using query_error_is_flashed
        [where rq = post_bad_statement and session = authenticated_session
           and cr = example_creds and e = example_env
           and x = "QueryExecutionError ''PARSE_SYNTAX_ERROR''"]
      h1 h2 h3 h4 h5
    by (simp add: QueryForm_def is_submitted_def post_bad_statement_def example_env_def)
qed

text \<open>
  C5. On \<open>GET /\<close> from a session without credentials the handler initiates a consent,
  stores it under \<open>session["consent"]\<close> and redirects to the authorization URL of that
  consent, whose \<open>state\<close> parameter is the state of the stored consent; from a session with
  credentials it renders the form, with no table and nothing flashed, and makes no call.
  The consent is the one the initiator of sections 4.1 and 4.2 makes from the verifier
  \<open>v\<close> and the state \<open>st\<close> that the random source yields; the URL is read back at an
  authorization endpoint that has no query of its own.
\<close>

theorem index_login_or_form:
  assumes "endpoint rq = Index_view" and "request_method rq = GET"
  shows "(session ''creds'' = None \<longrightarrow>
            handle_request (with_initiator transform ep config (Inr (v, st)) e) session rq =
              (Redirect (build_auth_url ep config (transform v) st),
               session(''consent'' \<mapsto>
                 ConsentDict \<lparr>state = st, verifier = v,
                              auth_url = build_auth_url ep config (transform v) st\<rparr>),
               [InitiateConsent])
            \<and> (CHR ''?'' \<notin> set ep \<longrightarrow>
                 query_parameter (build_auth_url ep config (transform v) st) ''state''
                   = Some st))
       \<and> (session2 ''creds'' = Some (CredsDict cr) \<longrightarrow>
            handle_request e session2 rq = (Page \<lparr>sql = None\<rparr> None [], session2, []))"
proof (intro conjI impI)
  assume "session ''creds'' = None"
  moreover have "initiate_consent (with_initiator transform ep config (Inr (v, st)) e) =
      Inr \<lparr>state = st, verifier = v, auth_url = build_auth_url ep config (transform v) st\<rparr>"
    by (simp add: with_initiator_def initiate_returns)
  ultimately have "index (with_initiator transform ep config (Inr (v, st)) e) session rq =
      (Inr (Redirect (build_auth_url ep config (transform v) st)),
       session(''consent'' \<mapsto>
         ConsentDict \<lparr>state = st, verifier = v,
                      auth_url = build_auth_url ep config (transform v) st\<rparr>),
       [InitiateConsent])"
    by (simp add: index_no_creds consent_as_dict_def)
  with assms
  show "handle_request (with_initiator transform ep config (Inr (v, st)) e) session rq =
      (Redirect (build_auth_url ep config (transform v) st),
       session(''consent'' \<mapsto>
         ConsentDict \<lparr>state = st, verifier = v,
                      auth_url = build_auth_url ep config (transform v) st\<rparr>),
       [InitiateConsent])"
    by (simp add: handle_index_GET finalize_simps)
next
  assume "CHR ''?'' \<notin> set ep"
  then show "query_parameter (build_auth_url ep config (transform v) st) ''state'' = Some st"
    by (rule auth_url_carries_state)
next
  assume "session2 ''creds'' = Some (CredsDict cr)"
  with assms show "handle_request e session2 rq = (Page \<lparr>sql = None\<rparr> None [], session2, [])"
    by (simp add: handle_index_GET index_not_submitted finalize_simps is_submitted_def)
qed

theorem index_login_or_form_witness:
  "handle_request
       (with_initiator example_transform example_endpoint example_config (Inr (''V1'', ''S1''))
          example_env)
       fresh_session get_index =
     (Redirect ''https://provider.example/oidc/v1/authorize?client_id=app-1&redirect_url=http%3A%2F%2Flocalhost%3A5001%2Fcallback&scopes=all-apis&challenge=1V&state=S1'',
      fresh_session(''consent'' \<mapsto>
        ConsentDict \<lparr>state = ''S1'', verifier = ''V1'',
                     auth_url = ''https://provider.example/oidc/v1/authorize?client_id=app-1&redirect_url=http%3A%2F%2Flocalhost%3A5001%2Fcallback&scopes=all-apis&challenge=1V&state=S1''\<rparr>),
      [InitiateConsent])
   \<and> query_parameter ''https://provider.example/oidc/v1/authorize?client_id=app-1&redirect_url=http%3A%2F%2Flocalhost%3A5001%2Fcallback&scopes=all-apis&challenge=1V&state=S1'' ''state''
       = Some ''S1''
   \<and> handle_request example_env authenticated_session get_index =
       (Page \<lparr>sql = None\<rparr> None [], authenticated_session, [])"
proof -
  have h1: "endpoint get_index = Index_view" and h2: "request_method get_index = GET"
    by (simp_all add: get_index_def)
  have h3: "fresh_session ''creds'' = None"
    and h4: "CHR ''?'' \<notin> set example_endpoint"
    and h5: "authenticated_session ''creds'' = Some (CredsDict example_creds)"
    by (simp_all add: fresh_session_def example_endpoint_def authenticated_session_def)
  show ?thesis
    using index_login_or_form
        [where rq = get_index and session = fresh_session and transform = example_transform
           and ep = example_endpoint and config = example_config and v = "''V1''"
           and st = "''S1''" and e = example_env and ?session2.0 = authenticated_session
           and cr = example_creds]
      h1 h2 h3 h4 h5
    by (simp only: example_auth_url simp_thms)
qed

text \<open>
  C6, as the code has it. A request to \<open>/\<close> from a session with stored credentials,
  expired or not, leaves \<open>session["creds"]\<close> as it is and never answers with a redirect
  to the provider: a refresh that fails inside the execution call is one more exception
  of that call.
\<close>

theorem index_never_clears_credentials:
  assumes "endpoint rq = Index_view" and "session ''creds'' = Some v"
  shows "session_of (handle_request e session rq) ''creds'' = Some v
       \<and> \<not> is_redirect (response_of (handle_request e session rq))"
proof
  show "session_of (handle_request e session rq) ''creds'' = Some v"
    using assms
    by (simp add: session_of_def handle_request_def view_function_def finalize_parts
        index_keeps_creds)
next
  show "\<not> is_redirect (response_of (handle_request e session rq))"
  proof (cases "request_method rq \<in> allowed_methods (endpoint rq)")
    case True
    obtain r s' cs where ix: "index e session rq = (r, s', cs)"
      by (cases "index e session rq") auto
    show ?thesis
    proof (cases r)
      case (Inl x)
      with True ix assms(1) show ?thesis
        by (simp add: response_of_def handle_request_def view_function_def finalize_simps)
    next
      case (Inr rsp)
      with ix assms(2) have "\<not> is_redirect rsp"
        using index_with_creds_no_redirect by blast
      with True ix Inr assms(1) show ?thesis
        by (simp add: response_of_def handle_request_def view_function_def finalize_simps)
    qed
  next
    case False
    then show ?thesis
      by (simp add: response_of_def handle_request_def)
  qed
qed

theorem index_never_clears_credentials_witness:
  "session_of (handle_request example_env expired_session get_index) ''creds'' =
     Some (CredsDict expired_creds)
   \<and> \<not> is_redirect (response_of (handle_request example_env expired_session get_index))"
proof -
  have h1: "endpoint get_index = Index_view"
    and h2: "expired_session ''creds'' = Some (CredsDict expired_creds)"
    by (simp_all add: get_index_def expired_session_def)
  show ?thesis
    using index_never_clears_credentials
        [where rq = get_index and session = expired_session
           and v = "CredsDict expired_creds" and e = example_env]
      h1 h2
    by simp
qed

text \<open>
  C6, as the specification words it, fails: the stored credentials have expired, the
  refresh is refused, and after the request the credentials are still in the session; the
  answer is the page with the refusal flashed, not a new login.
\<close>

theorem failed_refresh_keeps_credentials:
  "expiry expired_creds \<le> example_now
   \<and> response_of (handle_request example_env expired_session post_select) =
       Page \<lparr>sql = Some ''SELECT 1''\<rparr> None [(''refresh token rejected'', ''alert-danger'')]
   \<and> session_of (handle_request example_env expired_session post_select) ''creds'' \<noteq> None"
  by (simp add: response_of_def session_of_def handle_request_def allowed_methods_def
      view_function_def index_def finalize_def validate_on_submit_def QueryForm_def
      is_submitted_def try_body_def Let_def example_env_defs expired_creds_def
      expired_session_def post_select_def)

text \<open>
  C7. A callback that carries a code the token endpoint accepts and the state of the
  consent stored in the session, and no \<open>error\<close> parameter, leaves the exchanged
  credentials under \<open>session["creds"]\<close> and answers with a redirect to the index page.
\<close>

theorem callback_valid_stores_credentials:
  assumes "endpoint rq = Callback_view" and "request_method rq = GET"
    and "session ''consent'' = Some (consent_as_dict c)"
    and "args rq ''state'' = Some (state c)"
    and "args rq ''error'' = None"
    and "args rq ''code'' = Some code"
    and "tok (Some code) (verifier c) = Inr creds"
  shows "handle_request (with_exchanger tok e) session rq =
           (Redirect url_for_index, session(''creds'' \<mapsto> creds_as_dict creds),
            [ExchangeCallbackParameters c (args rq)])"
proof -
  have "exchange_callback_parameters (with_exchanger tok e) c (args rq) = Inr creds"
    using assms(4-7) by (simp add: with_exchanger_exchange exchange_def)
  with assms(3) have "callback (with_exchanger tok e) session rq =
      (Inr (Redirect url_for_index), session(''creds'' \<mapsto> CredsDict creds),
       [ExchangeCallbackParameters c (args rq)])"
    by (simp add: callback_returns consent_as_dict_def)
  with assms(1,2) show ?thesis
    by (simp add: handle_callback_GET finalize_simps creds_as_dict_def)
qed

theorem callback_valid_stores_credentials_witness:
  "handle_request (with_exchanger example_token_endpoint example_env) pending_session
       get_callback =
     (Redirect ''/'', pending_session(''creds'' \<mapsto> CredsDict example_creds),
      [ExchangeCallbackParameters example_consent (args get_callback)])"
proof -
  have h1: "endpoint get_callback = Callback_view"
    and h2: "request_method get_callback = GET"
    and h3: "pending_session ''consent'' = Some (consent_as_dict example_consent)"
    and h4: "args get_callback ''state'' = Some (state example_consent)"
    and h5: "args get_callback ''error'' = None"
    and h6: "args get_callback ''code'' = Some ''ABC''"
    and h7: "example_token_endpoint (Some ''ABC'') (verifier example_consent) = Inr example_creds"
    by (simp_all add: get_callback_def pending_session_def consent_as_dict_def
        example_consent_def example_token_endpoint_def)
  show ?thesis
    using callback_valid_stores_credentials
        [where rq = get_callback and session = pending_session and c = example_consent
           and code = "''ABC''" and tok = example_token_endpoint and creds = example_creds
           and e = example_env]
      h1 h2 h3 h4 h5 h6 h7
    by (simp add: url_for_index_def creds_as_dict_def)
qed

text \<open>
  C9. A request to \<open>/callback\<close> when the session holds no consent fails with the
  \<open>KeyError\<close> of \<open>session["consent"]\<close>, which nothing catches; no exchange is attempted and
  the session is left as it was, so no credentials are stored.
\<close>

theorem callback_without_consent_fails:
  assumes "endpoint rq = Callback_view" and "request_method rq = GET"
    and "session ''consent'' = None"
  shows "handle_request e session rq =
           (InternalServerError (KeyError ''consent''), session, [])"
  using assms by (simp add: handle_callback_GET callback_no_consent finalize_simps)

theorem callback_without_consent_fails_witness:
  "handle_request example_env fresh_session get_callback =
     (InternalServerError (KeyError ''consent''), fresh_session, [])
   \<and> fresh_session ''creds'' = None"
proof -
  have h1: "endpoint get_callback = Callback_view"
    and h2: "request_method get_callback = GET"
    and h3: "fresh_session ''consent'' = None"
    by (simp_all add: get_callback_def fresh_session_def)
  show ?thesis
    using callback_without_consent_fails
        [where rq = get_callback and session = fresh_session and e = example_env]
      h1 h2 h3
    by (simp add: fresh_session_def)
qed

text \<open>
  C10. For a session without credentials no request makes the handlers call
  \<open>execute_statement\<close>; a \<open>POST /\<close> from such a session is answered with the redirect to
  the provider, the only call made being the initiation of the consent.
\<close>

theorem no_execution_without_credentials:
  assumes "session ''creds'' = None"
  shows "\<not> list_ex is_execute_statement (calls_of (handle_request e session rq))
       \<and> (endpoint rq = Index_view \<longrightarrow> request_method rq = POST \<longrightarrow> initiate_consent e = Inr c \<longrightarrow>
            handle_request e session rq =
              (Redirect (auth_url c), session(''consent'' \<mapsto> consent_as_dict c),
               [InitiateConsent]))"
proof
  show "\<not> list_ex is_execute_statement (calls_of (handle_request e session rq))"
  proof (cases "endpoint rq")
    case Index_view
    then show ?thesis
      using assms
      by (simp add: calls_of_def handle_request_def view_function_def finalize_parts
          index_no_creds_calls)
  next
    case Callback_view
    then show ?thesis
      by (simp add: calls_of_def handle_request_def view_function_def finalize_parts
          callback_never_executes)
  qed
next
  show "endpoint rq = Index_view \<longrightarrow> request_method rq = POST \<longrightarrow> initiate_consent e = Inr c \<longrightarrow>
            handle_request e session rq =
              (Redirect (auth_url c), session(''consent'' \<mapsto> consent_as_dict c),
               [InitiateConsent])"
    using assms by (simp add: handle_index_POST index_no_creds finalize_simps)
qed

theorem no_execution_without_credentials_witness:
  "\<not> list_ex is_execute_statement (calls_of (handle_request example_env fresh_session post_select))
   \<and> handle_request example_env fresh_session post_select =
       (Redirect (auth_url example_consent),
        fresh_session(''consent'' \<mapsto> consent_as_dict example_consent), [InitiateConsent])"
proof -
  have h1: "fresh_session ''creds'' = None"
    and h2: "endpoint post_select = Index_view"
    and h3: "request_method post_select = POST"
    and h4: "initiate_consent example_env = Inr example_consent"
    by (simp_all add: fresh_session_def post_select_def example_env_def)
  show ?thesis
    using no_execution_without_credentials
        [where session = fresh_session and e = example_env and rq = post_select
           and c = example_consent]
      h1 h2 h3 h4
    by (simp add: calls_of_def)
qed

end
